theory Spec2Isabelle
  imports Complex_Main
begin

section \<open>Domain models\<close>

text \<open>
  The enumerations \<open>EmployeeType\<close> and \<open>Role\<close> of \<open>employees.py\<close> are closed
  datatypes. The dataclasses \<open>Project\<close> and \<open>Employee\<close> are records. Python's
  \<open>float\<close> is idealised as \<open>real\<close> (rounding is not modelled), \<open>int\<close> is
  \<open>int\<close>, and an \<open>Optional\<close> field is an \<open>option\<close> whose \<open>None\<close> is Python's
  \<open>None\<close>. The field \<open>name\<close> of \<open>Project\<close> is called \<open>project_name\<close> here,
  since \<open>Employee\<close> has a field \<open>name\<close> too.
\<close>

datatype EmployeeType = SALARIED | HOURLY | FREELANCER

datatype Role = INTERN | MANAGER | VICE_PRESIDENT

record Project =
  project_name :: string
  amount :: real
  delivered :: bool

record Employee =
  name :: string
  role :: Role
  employee_type :: EmployeeType
  vacation_days :: int
  salary :: "real option"
  hourly_rate :: "real option"
  hours_worked :: "int option"
  projects :: "Project list"

text \<open>The dataclass constructor with every defaulted field left at its default.\<close>

definition Employee_init :: "string \<Rightarrow> Role \<Rightarrow> EmployeeType \<Rightarrow> Employee" where
  "Employee_init n r t =
     \<lparr>name = n, role = r, employee_type = t, vacation_days = 25, salary = None,
      hourly_rate = None, hours_worked = None, projects = []\<rparr>"

definition add_project :: "Employee \<Rightarrow> Project \<Rightarrow> Employee" where
  "add_project e p = e\<lparr>projects := projects e @ [p]\<rparr>"

definition get_delivered_projects :: "Employee \<Rightarrow> Project list" where
  "get_delivered_projects e = filter delivered (projects e)"

section \<open>Errors\<close>

text \<open>
  Every exception the modelled code can raise. A \<open>ValueError\<close> carries the data its
  f-string message is built from:
  \<^item> \<open>CannotPayout d n\<close>: \<^verbatim>\<open>f"Cannot payout {days} vacation days for {name}"\<close>
  \<^item> \<open>CannotTake d n\<close>: \<^verbatim>\<open>f"Cannot take {days} vacation days for {name}"\<close>
  \<^item> \<open>OnlyFreelancers\<close>: \<^verbatim>\<open>"Only freelancers can have projects"\<close>
  \<^item> \<open>UnknownEmployeeType t\<close>: \<^verbatim>\<open>f"Unknown employee type: {employee_type}"\<close>

  \<open>TypeError\<close> is what Python raises when an arithmetic operator or an order
  comparison meets \<open>None\<close>.
\<close>

datatype Message =
    CannotPayout int string
  | CannotTake int string
  | OnlyFreelancers
  | UnknownEmployeeType EmployeeType

datatype error = TypeError | ValueError Message

type_synonym 'a result = "error + 'a"

section \<open>Payment strategies\<close>

datatype PaymentStrategy = SalariedPayment | HourlyPayment | FreelancePayment

text \<open>Python's built-in \<open>sum\<close>: a left fold that starts from \<open>0\<close>.\<close>

definition py_sum :: "real list \<Rightarrow> real" where
  "py_sum xs = foldl (+) 0 xs"

text \<open>
  \<open>calculate_payment\<close> of the three strategy classes. \<open>SalariedPayment\<close> returns the
  field \<open>salary\<close> as it is, which is \<open>None\<close> when the field is unset, so the returned
  value is a \<open>real option\<close>. \<open>HourlyPayment\<close> multiplies two fields, and the
  multiplication raises \<open>TypeError\<close> when either is \<open>None\<close>.
\<close>

fun calculate_payment :: "PaymentStrategy \<Rightarrow> Employee \<Rightarrow> (real option) result" where
  "calculate_payment SalariedPayment e = Inr (salary e)"
| "calculate_payment HourlyPayment e =
     (case hourly_rate e of
        None \<Rightarrow> Inl TypeError
      | Some r \<Rightarrow>
          (case hours_worked e of
             None \<Rightarrow> Inl TypeError
           | Some h \<Rightarrow> Inr (Some (r * of_int h))))"
| "calculate_payment FreelancePayment e =
     Inr (Some (py_sum (map amount (get_delivered_projects e))))"

section \<open>Vacation policies\<close>

datatype VacationPolicy =
  BasicVacation | ManagerVacation | VPVacation | InternVacation | HourlyVacation

text \<open>The result of \<open>calculate_vacation_days\<close>: an integer, or \<open>float('inf')\<close>.\<close>

datatype Entitlement = Days int | Unlimited

fun calculate_vacation_days :: "VacationPolicy \<Rightarrow> Employee \<Rightarrow> Entitlement" where
  "calculate_vacation_days BasicVacation e = Days (vacation_days e)"
| "calculate_vacation_days ManagerVacation e = Days (vacation_days e)"
| "calculate_vacation_days VPVacation e = Unlimited"
| "calculate_vacation_days InternVacation e = Days 0"
| "calculate_vacation_days HourlyVacation e = Days (vacation_days e)"

fun can_take_vacation :: "VacationPolicy \<Rightarrow> Employee \<Rightarrow> int \<Rightarrow> bool" where
  "can_take_vacation BasicVacation e days = (vacation_days e \<ge> days)"
| "can_take_vacation ManagerVacation e days = (vacation_days e \<ge> days)"
| "can_take_vacation VPVacation e days = (days \<le> 5)"
| "can_take_vacation InternVacation e days = False"
| "can_take_vacation HourlyVacation e days = (vacation_days e \<ge> days)"

fun can_payout_vacation :: "VacationPolicy \<Rightarrow> Employee \<Rightarrow> int \<Rightarrow> bool" where
  "can_payout_vacation BasicVacation e days = (vacation_days e \<ge> days \<and> days \<le> 5)"
| "can_payout_vacation ManagerVacation e days = (vacation_days e \<ge> days \<and> days \<le> 10)"
| "can_payout_vacation VPVacation e days = (days \<le> 5)"
| "can_payout_vacation InternVacation e days = False"
| "can_payout_vacation HourlyVacation e days = (vacation_days e \<ge> days \<and> days \<le> 5)"

section \<open>Strategy factory\<close>

text \<open>
  Both factory methods keep the source's chain of tests in its order. The last branch
  of \<open>create_payment_strategy\<close> raises; the last two branches of
  \<open>create_vacation_policy\<close> are reached only by a role that is none of the three.
\<close>

definition create_payment_strategy :: "EmployeeType \<Rightarrow> PaymentStrategy result" where
  "create_payment_strategy t =
     (if t = SALARIED then Inr SalariedPayment
      else if t = HOURLY then Inr HourlyPayment
      else if t = FREELANCER then Inr FreelancePayment
      else Inl (ValueError (UnknownEmployeeType t)))"

definition create_vacation_policy :: "Role \<Rightarrow> EmployeeType \<Rightarrow> VacationPolicy" where
  "create_vacation_policy r t =
     (if r = INTERN then InternVacation
      else if r = MANAGER then ManagerVacation
      else if r = VICE_PRESIDENT then VPVacation
      else if t = HOURLY then HourlyVacation
      else BasicVacation)"

section \<open>Operation log\<close>

text \<open>
  A log entry is the dictionary built by \<open>OperationLog.record\<close>; its key \<open>amount\<close>
  is the field \<open>op_amount\<close>. The timestamp is the reading of the clock at the call,
  passed in as \<open>now\<close>. The text of \<open>details\<close> is kept as the data it is formatted from:
  \<^item> \<open>BaseDetails b\<close>: \<^verbatim>\<open>f"Base: ${base_payment:.2f}"\<close>
  \<^item> \<open>BaseBonusDetails b x\<close>: the same, followed by \<^verbatim>\<open>f", Bonus: ${bonus:.2f}"\<close>
  \<^item> \<open>PaidOutDetails d\<close>: \<^verbatim>\<open>f"Paid out {days} vacation days"\<close>
  \<^item> \<open>TookDetails d\<close>: \<^verbatim>\<open>f"Took {days} vacation days"\<close>

  The class attribute \<open>_operations\<close> is shared state; it is passed to every operation
  and returned updated.
\<close>

datatype Details =
    BaseDetails real
  | BaseBonusDetails real real
  | PaidOutDetails int
  | TookDetails int

record LogEntry =
  timestamp :: nat
  operation :: string
  employee_name :: "string option"
  op_amount :: "real option"
  details :: "Details option"

definition OperationLog_record ::
  "nat \<Rightarrow> string \<Rightarrow> string option \<Rightarrow> real option \<Rightarrow> Details option
     \<Rightarrow> LogEntry list \<Rightarrow> LogEntry list" where
  "OperationLog_record now opn emp_name amt det ops =
     ops @ [\<lparr>timestamp = now, operation = opn, employee_name = emp_name,
             op_amount = amt, details = det\<rparr>]"

text \<open>
  The test \<^verbatim>\<open>if employee_name:\<close> is Python truthiness: \<open>None\<close> and the empty
  string are both false.
\<close>

definition truthy :: "string option \<Rightarrow> bool" where
  "truthy s = (case s of None \<Rightarrow> False | Some n \<Rightarrow> n \<noteq> [])"

definition OperationLog_get_operations :: "string option \<Rightarrow> LogEntry list \<Rightarrow> LogEntry list" where
  "OperationLog_get_operations emp_name ops =
     (if truthy emp_name then filter (\<lambda>op. employee_name op = emp_name) ops
      else ops)"

definition OperationLog_clear_log :: "LogEntry list \<Rightarrow> LogEntry list" where
  "OperationLog_clear_log ops = []"

section \<open>Commands\<close>

text \<open>
  The configuration is a dictionary read with \<open>dict.get(key, default)\<close>.
\<close>

type_synonym Config = "string \<rightharpoonup> real"

definition config_get :: "Config \<Rightarrow> string \<Rightarrow> real \<Rightarrow> real" where
  "config_get cfg k d = (case cfg k of None \<Rightarrow> d | Some v \<Rightarrow> v)"

definition DEFAULT_CONFIG :: Config where
  "DEFAULT_CONFIG =
     [''salaried_bonus_percentage'' \<mapsto> 1 / 10,
      ''hourly_bonus_threshold'' \<mapsto> 160,
      ''hourly_bonus_amount'' \<mapsto> 100]"

text \<open>
  \<open>PayEmployeeCommand._calculate_bonus\<close>. The base payment may be \<open>None\<close> (see
  \<open>calculate_payment\<close>); multiplying it raises \<open>TypeError\<close>, and so does comparing an
  unset \<open>hours_worked\<close> with the threshold.
\<close>

definition calculate_bonus :: "Employee \<Rightarrow> Config \<Rightarrow> real option \<Rightarrow> real result" where
  "calculate_bonus e cfg base_payment =
     (if role e = INTERN then Inr 0
      else if employee_type e = SALARIED then
        (case base_payment of
           None \<Rightarrow> Inl TypeError
         | Some b \<Rightarrow> Inr (b * config_get cfg ''salaried_bonus_percentage'' (1 / 10)))
      else if employee_type e = HOURLY then
        (let threshold = config_get cfg ''hourly_bonus_threshold'' 160;
             bonus_amount = config_get cfg ''hourly_bonus_amount'' 100
         in case hours_worked e of
              None \<Rightarrow> Inl TypeError
            | Some h \<Rightarrow> Inr (if of_int h > threshold then bonus_amount else 0))
      else Inr 0)"

text \<open>
  \<open>PayEmployeeCommand.execute\<close> returns the total and the log. An exception leaves
  the log as it was, since \<open>OperationLog.record\<close> is the last statement before the return.
\<close>

definition PayEmployeeCommand_execute ::
  "nat \<Rightarrow> Employee \<Rightarrow> PaymentStrategy \<Rightarrow> Config \<Rightarrow> LogEntry list
     \<Rightarrow> real result \<times> LogEntry list" where
  "PayEmployeeCommand_execute now e strategy cfg ops =
     (case calculate_payment strategy e of
        Inl err \<Rightarrow> (Inl err, ops)
      | Inr base_payment \<Rightarrow>
          (case calculate_bonus e cfg base_payment of
             Inl err \<Rightarrow> (Inl err, ops)
           | Inr bonus \<Rightarrow>
               (case base_payment of
                  None \<Rightarrow> (Inl TypeError, ops)
                | Some b \<Rightarrow>
                    (let total_payment = b + bonus;
                         det = (if bonus > 0 then BaseBonusDetails b bonus else BaseDetails b)
                     in (Inr total_payment,
                         OperationLog_record now ''PAYMENT'' (Some (name e))
                           (Some total_payment) (Some det) ops)))))"

text \<open>
  \<open>GrantVacationCommand.execute\<close> returns the outcome, the employee and the log. The
  \<open>raise\<close> comes before any assignment, so the failing branches return both as
  they were.
\<close>

definition GrantVacationCommand_execute ::
  "nat \<Rightarrow> Employee \<Rightarrow> VacationPolicy \<Rightarrow> int \<Rightarrow> bool \<Rightarrow> LogEntry list
     \<Rightarrow> unit result \<times> Employee \<times> LogEntry list" where
  "GrantVacationCommand_execute now e policy days payout ops =
     (if payout then
        (if \<not> can_payout_vacation policy e days then
           (Inl (ValueError (CannotPayout days (name e))), e, ops)
         else
           (let e' = (if role e \<noteq> VICE_PRESIDENT
                      then e\<lparr>vacation_days := vacation_days e - days\<rparr> else e)
            in (Inr (), e',
                OperationLog_record now ''VACATION_PAYOUT'' (Some (name e'))
                  (Some (of_int days)) (Some (PaidOutDetails days)) ops)))
      else
        (if \<not> can_take_vacation policy e days then
           (Inl (ValueError (CannotTake days (name e))), e, ops)
         else
           (let e' = (if role e \<noteq> VICE_PRESIDENT
                      then e\<lparr>vacation_days := vacation_days e - days\<rparr> else e)
            in (Inr (), e',
                OperationLog_record now ''VACATION_TAKEN'' (Some (name e'))
                  (Some (of_int days)) (Some (TookDetails days)) ops))))"

section \<open>Services and company\<close>

definition PayrollService_pay_employee ::
  "nat \<Rightarrow> Config \<Rightarrow> Employee \<Rightarrow> LogEntry list \<Rightarrow> real result \<times> LogEntry list" where
  "PayrollService_pay_employee now cfg e ops =
     (case create_payment_strategy (employee_type e) of
        Inl err \<Rightarrow> (Inl err, ops)
      | Inr strategy \<Rightarrow> PayEmployeeCommand_execute now e strategy cfg ops)"

definition VacationService_grant_vacation ::
  "nat \<Rightarrow> Employee \<Rightarrow> int \<Rightarrow> bool \<Rightarrow> LogEntry list
     \<Rightarrow> unit result \<times> Employee \<times> LogEntry list" where
  "VacationService_grant_vacation now e days payout ops =
     GrantVacationCommand_execute now e
       (create_vacation_policy (role e) (employee_type e)) days payout ops"

text \<open>
  \<open>Company.add_project_to_freelancer\<close> returns the outcome and the employee, who is
  unchanged when the type test raises.
\<close>

definition add_project_to_freelancer ::
  "Employee \<Rightarrow> string \<Rightarrow> real \<Rightarrow> unit result \<times> Employee" where
  "add_project_to_freelancer e pname amt =
     (if employee_type e \<noteq> FREELANCER then (Inl (ValueError OnlyFreelancers), e)
      else (Inr (), add_project e \<lparr>project_name = pname, amount = amt, delivered = True\<rparr>))"

definition get_employee_history :: "Employee \<Rightarrow> LogEntry list \<Rightarrow> LogEntry list" where
  "get_employee_history e ops = OperationLog_get_operations (Some (name e)) ops"

section \<open>Sequences of calls\<close>

text \<open>
  The arguments of one call of \<open>OperationLog.record\<close>, clock reading first, the entry
  such a call builds, and a sequence of calls run from left to right.
\<close>

type_synonym RecordCall = "nat \<times> string \<times> string option \<times> real option \<times> Details option"

fun entry_of :: "RecordCall \<Rightarrow> LogEntry" where
  "entry_of (now, opn, emp_name, amt, det) =
     \<lparr>timestamp = now, operation = opn, employee_name = emp_name,
      op_amount = amt, details = det\<rparr>"

fun record_all :: "RecordCall list \<Rightarrow> LogEntry list \<Rightarrow> LogEntry list" where
  "record_all [] ops = ops"
| "record_all ((now, opn, emp_name, amt, det) # cs) ops =
     record_all cs (OperationLog_record now opn emp_name amt det ops)"

section \<open>Vacation policy selection\<close>

text \<open>
  C1. Selection is by role first: for an employee whose role is Manager the factory
  returns the Manager policy whatever the compensation type is, so an Hourly Manager
  may be paid out when the balance covers the days and the days are at most 10; the
  Hourly policy, with its cap of 5, is not the one applied.
\<close>

theorem manager_policy_role_first:
  assumes "role e = MANAGER"
  shows "create_vacation_policy (role e) t = ManagerVacation
       \<and> can_payout_vacation (create_vacation_policy (role e) HOURLY) e days
           = (vacation_days e \<ge> days \<and> days \<le> 10)
       \<and> (5 < days \<and> days \<le> 10 \<and> days \<le> vacation_days e \<longrightarrow>
            can_payout_vacation (create_vacation_policy (role e) HOURLY) e days
          \<and> \<not> can_payout_vacation HourlyVacation e days)"
  using assms by (simp add: create_vacation_policy_def)

theorem manager_policy_role_first_witness:
  "role (Employee_init ''Bob'' MANAGER HOURLY) = MANAGER
   \<and> create_vacation_policy MANAGER HOURLY = ManagerVacation
   \<and> can_payout_vacation (create_vacation_policy MANAGER HOURLY)
        (Employee_init ''Bob'' MANAGER HOURLY) 7
   \<and> \<not> can_payout_vacation HourlyVacation (Employee_init ''Bob'' MANAGER HOURLY) 7"
  using manager_policy_role_first [of "Employee_init ''Bob'' MANAGER HOURLY" HOURLY 7]
  by (simp add: Employee_init_def)

section \<open>The vacation command\<close>

text \<open>
  C2. The vacation command is all or nothing. When the check chosen by the payout
  flag (\<open>can_payout_vacation\<close> for a payout, \<open>can_take_vacation\<close> otherwise) is false,
  the command raises \<open>ValueError\<close> and returns the employee and the log as they were.
  When the check is true the command succeeds, the balance is lowered by the days
  unless the role is Vice President, and the log grows by exactly one entry.
\<close>

theorem vacation_command_atomic:
  "(\<not> (if payout then can_payout_vacation policy e days
                   else can_take_vacation policy e days) \<longrightarrow>
      GrantVacationCommand_execute now e policy days payout ops
        = (Inl (ValueError (if payout then CannotPayout days (name e)
                             else CannotTake days (name e))), e, ops))
 \<and> ((if payout then can_payout_vacation policy e days
                  else can_take_vacation policy e days) \<longrightarrow>
      GrantVacationCommand_execute now e policy days payout ops
        = (Inr (),
           (if role e = VICE_PRESIDENT then e
            else e\<lparr>vacation_days := vacation_days e - days\<rparr>),
           ops @ [\<lparr>timestamp = now,
                    operation = (if payout then ''VACATION_PAYOUT'' else ''VACATION_TAKEN''),
                    employee_name = Some (name e),
                    op_amount = Some (of_int days),
                    details = Some (if payout then PaidOutDetails days
                                    else TookDetails days)\<rparr>]))"
  by (simp add: GrantVacationCommand_execute_def OperationLog_record_def)

text \<open>
  The two runs of the specification's example: Bob, a Manager with 12 days, is paid
  out 10 days (balance 2, one entry), and a further payout of 3 days is refused with
  the balance and the log untouched.
\<close>

theorem vacation_command_atomic_witness:
  "can_payout_vacation ManagerVacation
      ((Employee_init ''Bob'' MANAGER SALARIED)\<lparr>vacation_days := 12\<rparr>) 10
 \<and> GrantVacationCommand_execute 1
      ((Employee_init ''Bob'' MANAGER SALARIED)\<lparr>vacation_days := 12\<rparr>)
      ManagerVacation 10 True []
    = (Inr (), (Employee_init ''Bob'' MANAGER SALARIED)\<lparr>vacation_days := 2\<rparr>,
       [\<lparr>timestamp = 1, operation = ''VACATION_PAYOUT'', employee_name = Some ''Bob'',
         op_amount = Some 10, details = Some (PaidOutDetails 10)\<rparr>])
 \<and> \<not> can_payout_vacation ManagerVacation
      ((Employee_init ''Bob'' MANAGER SALARIED)\<lparr>vacation_days := 2\<rparr>) 3
 \<and> GrantVacationCommand_execute 2
      ((Employee_init ''Bob'' MANAGER SALARIED)\<lparr>vacation_days := 2\<rparr>)
      ManagerVacation 3 True []
    = (Inl (ValueError (CannotPayout 3 ''Bob'')),
       (Employee_init ''Bob'' MANAGER SALARIED)\<lparr>vacation_days := 2\<rparr>, [])"
  using vacation_command_atomic
          [of True ManagerVacation
              "(Employee_init ''Bob'' MANAGER SALARIED)\<lparr>vacation_days := 12\<rparr>" 10 1 "[]"]
        vacation_command_atomic
          [of True ManagerVacation
              "(Employee_init ''Bob'' MANAGER SALARIED)\<lparr>vacation_days := 2\<rparr>" 3 2 "[]"]
  by (simp add: Employee_init_def)

text \<open>
  C3. For an employee whose role is Vice President the command leaves the vacation
  balance as it was, for every policy, number of days and payout flag, whether the
  command succeeds or raises.
\<close>

theorem vp_balance_unchanged:
  assumes "role e = VICE_PRESIDENT"
  shows "vacation_days (fst (snd (GrantVacationCommand_execute now e policy days payout ops)))
           = vacation_days e"
  using assms by (simp add: GrantVacationCommand_execute_def)

text \<open>
  Carol, a Vice President: taking 6 days is refused, taking 5 days succeeds, and the
  balance is 25 after either.
\<close>

theorem vp_balance_unchanged_witness:
  "role (Employee_init ''Carol'' VICE_PRESIDENT SALARIED) = VICE_PRESIDENT
 \<and> fst (GrantVacationCommand_execute 1 (Employee_init ''Carol'' VICE_PRESIDENT SALARIED)
          VPVacation 6 False []) = Inl (ValueError (CannotTake 6 ''Carol''))
 \<and> vacation_days (fst (snd (GrantVacationCommand_execute 1
          (Employee_init ''Carol'' VICE_PRESIDENT SALARIED) VPVacation 6 False []))) = 25
 \<and> fst (GrantVacationCommand_execute 2 (Employee_init ''Carol'' VICE_PRESIDENT SALARIED)
          VPVacation 5 False []) = Inr ()
 \<and> vacation_days (fst (snd (GrantVacationCommand_execute 2
          (Employee_init ''Carol'' VICE_PRESIDENT SALARIED) VPVacation 5 False []))) = 25"
  using vp_balance_unchanged
          [of "Employee_init ''Carol'' VICE_PRESIDENT SALARIED" 1 VPVacation 6 False "[]"]
        vp_balance_unchanged
          [of "Employee_init ''Carol'' VICE_PRESIDENT SALARIED" 2 VPVacation 5 False "[]"]
  by (simp add: Employee_init_def GrantVacationCommand_execute_def)

text \<open>
  C5 (amended). A request for 0 days passes through the same checks as any other:
  there is no separate path for it. Under a policy other than Intern, and with a
  balance that is not negative unless the policy is the Vice President's, the command
  with \<open>days = 0\<close> succeeds for both values of the payout flag, leaves the employee as
  it was and appends one entry. The Intern policy refuses every request, 0 days
  included.
\<close>

theorem zero_days_request:
  assumes "policy \<noteq> InternVacation"
      and "policy = VPVacation \<or> 0 \<le> vacation_days e"
  shows "GrantVacationCommand_execute now e policy 0 payout ops
           = (Inr (), e,
              ops @ [\<lparr>timestamp = now,
                       operation = (if payout then ''VACATION_PAYOUT'' else ''VACATION_TAKEN''),
                       employee_name = Some (name e),
                       op_amount = Some 0,
                       details = Some (if payout then PaidOutDetails 0 else TookDetails 0)\<rparr>])"
  using assms
  by (cases policy) (simp_all add: GrantVacationCommand_execute_def OperationLog_record_def)

theorem zero_days_request_witness:
  "ManagerVacation \<noteq> InternVacation
 \<and> (0::int) \<le> vacation_days (Employee_init ''Bob'' MANAGER HOURLY)
 \<and> GrantVacationCommand_execute 3 (Employee_init ''Bob'' MANAGER HOURLY)
      ManagerVacation 0 True []
    = (Inr (), Employee_init ''Bob'' MANAGER HOURLY,
       [\<lparr>timestamp = 3, operation = ''VACATION_PAYOUT'', employee_name = Some ''Bob'',
         op_amount = Some 0, details = Some (PaidOutDetails 0)\<rparr>])"
  using zero_days_request [of ManagerVacation "Employee_init ''Bob'' MANAGER HOURLY" 3 True "[]"]
  by (simp add: Employee_init_def)

text \<open>
  An Intern who asks for 0 days is refused, both for time off and for a payout; so is
  a Manager whose balance is below 0.
\<close>

theorem zero_days_request_counterexample:
  "VacationService_grant_vacation 1 (Employee_init ''Ian'' INTERN SALARIED) 0 False []
     = (Inl (ValueError (CannotTake 0 ''Ian'')), Employee_init ''Ian'' INTERN SALARIED, [])
 \<and> VacationService_grant_vacation 1 (Employee_init ''Ian'' INTERN SALARIED) 0 True []
     = (Inl (ValueError (CannotPayout 0 ''Ian'')), Employee_init ''Ian'' INTERN SALARIED, [])
 \<and> VacationService_grant_vacation 1
      ((Employee_init ''Max'' MANAGER SALARIED)\<lparr>vacation_days := - 1\<rparr>) 0 False []
     = (Inl (ValueError (CannotTake 0 ''Max'')),
        (Employee_init ''Max'' MANAGER SALARIED)\<lparr>vacation_days := - 1\<rparr>, [])"
  by (simp add: VacationService_grant_vacation_def GrantVacationCommand_execute_def
        create_vacation_policy_def Employee_init_def)

text \<open>
  C9 (amended). Negative day counts are not rejected. Under the Manager, Hourly or
  Basic policy, for an employee who is not a Vice President, a request for
  \<open>days < 0\<close> that the balance covers (\<open>days \<le> balance\<close>, as every balance from 0 up
  does) succeeds for time off and for a payout, appends one entry, and raises the
  balance by \<open>- days\<close>.
\<close>

theorem negative_days_accepted:
  assumes "policy \<in> {ManagerVacation, HourlyVacation, BasicVacation}"
      and "role e \<noteq> VICE_PRESIDENT"
      and "days < 0"
      and "days \<le> vacation_days e"
  shows "GrantVacationCommand_execute now e policy days payout ops
           = (Inr (), e\<lparr>vacation_days := vacation_days e + (- days)\<rparr>,
              ops @ [\<lparr>timestamp = now,
                       operation = (if payout then ''VACATION_PAYOUT'' else ''VACATION_TAKEN''),
                       employee_name = Some (name e),
                       op_amount = Some (of_int days),
                       details = Some (if payout then PaidOutDetails days
                                       else TookDetails days)\<rparr>])
       \<and> vacation_days e
           < vacation_days (fst (snd (GrantVacationCommand_execute now e policy days payout ops)))"
  using assms
  by (auto simp add: GrantVacationCommand_execute_def OperationLog_record_def)

theorem negative_days_accepted_witness:
  "ManagerVacation \<in> {ManagerVacation, HourlyVacation, BasicVacation}
 \<and> role (Employee_init ''Bob'' MANAGER SALARIED) \<noteq> VICE_PRESIDENT
 \<and> (- 5 :: int) < 0
 \<and> - 5 \<le> vacation_days (Employee_init ''Bob'' MANAGER SALARIED)
 \<and> GrantVacationCommand_execute 4 (Employee_init ''Bob'' MANAGER SALARIED)
      ManagerVacation (- 5) True []
    = (Inr (), (Employee_init ''Bob'' MANAGER SALARIED)\<lparr>vacation_days := 30\<rparr>,
       [\<lparr>timestamp = 4, operation = ''VACATION_PAYOUT'', employee_name = Some ''Bob'',
         op_amount = Some (- 5), details = Some (PaidOutDetails (- 5))\<rparr>])"
  using negative_days_accepted
          [of ManagerVacation "Employee_init ''Bob'' MANAGER SALARIED" "- 5" 4 True "[]"]
  by (simp add: Employee_init_def)

text \<open>
  A Manager whose balance is \<open>- 10\<close> and who asks for \<open>- 5\<close> days is refused: the
  balance does not cover the request.
\<close>

theorem negative_days_accepted_counterexample:
  "create_vacation_policy MANAGER SALARIED = ManagerVacation
 \<and> (- 5 :: int) < 0
 \<and> GrantVacationCommand_execute 1
      ((Employee_init ''Max'' MANAGER SALARIED)\<lparr>vacation_days := - 10\<rparr>)
      (create_vacation_policy MANAGER SALARIED) (- 5) False []
     = (Inl (ValueError (CannotTake (- 5) ''Max'')),
        (Employee_init ''Max'' MANAGER SALARIED)\<lparr>vacation_days := - 10\<rparr>, [])"
  by (simp add: GrantVacationCommand_execute_def create_vacation_policy_def Employee_init_def)

section \<open>Payment rules\<close>

lemma foldl_plus_sum_list: "foldl (+) a xs = a + sum_list (xs :: real list)"
  by (induction xs arbitrary: a) simp_all

lemma py_sum_sum_list: "py_sum xs = sum_list xs"
  by (simp add: py_sum_def foldl_plus_sum_list)

lemma py_sum_snoc: "py_sum (xs @ [x]) = py_sum xs + x"
  by (simp add: py_sum_def)

text \<open>
  C4 (amended). No payment rule validates its fields. For an Hourly employee with
  \<open>hourly_rate\<close> or \<open>hours_worked\<close> unset the rule fails, with the \<open>TypeError\<close> of the
  multiplication. For a Salaried employee with no salary the rule does not fail: it
  returns the unset value \<open>None\<close> itself, not zero, and it is the payment command that
  then fails with \<open>TypeError\<close>, when it computes with that value. In both cases paying
  the employee raises and records nothing.
\<close>

theorem payment_with_unset_field:
  "(employee_type e = HOURLY \<and> (hourly_rate e = None \<or> hours_worked e = None) \<longrightarrow>
      create_payment_strategy (employee_type e) = Inr HourlyPayment
    \<and> calculate_payment HourlyPayment e = Inl TypeError
    \<and> PayrollService_pay_employee now cfg e ops = (Inl TypeError, ops))
 \<and> (employee_type e = SALARIED \<and> salary e = None \<longrightarrow>
      create_payment_strategy (employee_type e) = Inr SalariedPayment
    \<and> calculate_payment SalariedPayment e = Inr None
    \<and> PayrollService_pay_employee now cfg e ops = (Inl TypeError, ops))"
  by (auto simp add: create_payment_strategy_def PayrollService_pay_employee_def
        PayEmployeeCommand_execute_def calculate_bonus_def split: option.splits)

theorem payment_with_unset_field_witness:
  "employee_type (Employee_init ''Hal'' MANAGER HOURLY) = HOURLY
 \<and> hourly_rate (Employee_init ''Hal'' MANAGER HOURLY) = None
 \<and> calculate_payment HourlyPayment (Employee_init ''Hal'' MANAGER HOURLY) = Inl TypeError
 \<and> employee_type (Employee_init ''Sam'' INTERN SALARIED) = SALARIED
 \<and> salary (Employee_init ''Sam'' INTERN SALARIED) = None
 \<and> calculate_payment SalariedPayment (Employee_init ''Sam'' INTERN SALARIED) = Inr None
 \<and> PayrollService_pay_employee 1 DEFAULT_CONFIG (Employee_init ''Sam'' INTERN SALARIED) []
     = (Inl TypeError, [])"
  using payment_with_unset_field [of "Employee_init ''Hal'' MANAGER HOURLY" 1 DEFAULT_CONFIG "[]"]
        payment_with_unset_field [of "Employee_init ''Sam'' INTERN SALARIED" 1 DEFAULT_CONFIG "[]"]
  by (simp add: Employee_init_def)

text \<open>
  For a Salaried employee with no salary the rule selected by the factory returns a
  value, the missing value itself, where the specification has it fail.
\<close>

theorem payment_with_unset_field_counterexample:
  "employee_type (Employee_init ''Sam'' MANAGER SALARIED) = SALARIED
 \<and> salary (Employee_init ''Sam'' MANAGER SALARIED) = None
 \<and> create_payment_strategy SALARIED = Inr SalariedPayment
 \<and> calculate_payment SalariedPayment (Employee_init ''Sam'' MANAGER SALARIED) = Inr None"
  by (simp add: create_payment_strategy_def Employee_init_def)

text \<open>
  C6. For an Hourly employee who is not an Intern, with the hours worked set, the
  bonus of the payment command is the configured hourly bonus amount when the hours
  worked exceed the configured threshold, and 0 otherwise, hours equal to the
  threshold included. The command returns the base payment plus that bonus and
  records one \<open>PAYMENT\<close> entry with that total.
\<close>

theorem hourly_bonus:
  assumes "employee_type e = HOURLY"
      and "role e \<noteq> INTERN"
      and "hours_worked e = Some h"
      and "calculate_payment strategy e = Inr (Some base)"
      and "bonus = (if of_int h > config_get cfg ''hourly_bonus_threshold'' 160
                    then config_get cfg ''hourly_bonus_amount'' 100 else 0)"
  shows "calculate_bonus e cfg (Some base) = Inr bonus
       \<and> (of_int h = config_get cfg ''hourly_bonus_threshold'' 160 \<longrightarrow> bonus = 0)
       \<and> PayEmployeeCommand_execute now e strategy cfg ops
           = (Inr (base + bonus),
              ops @ [\<lparr>timestamp = now, operation = ''PAYMENT'',
                       employee_name = Some (name e),
                       op_amount = Some (base + bonus),
                       details = Some (if bonus > 0 then BaseBonusDetails base bonus
                                       else BaseDetails base)\<rparr>])"
  using assms
  by (simp add: calculate_bonus_def PayEmployeeCommand_execute_def OperationLog_record_def
        Let_def)

text \<open>
  Alice, Hourly, rate 20, 170 hours, threshold 160, bonus amount 100: the command
  returns \<open>20 * 170 + 100 = 3500\<close> and the log gains one entry with that amount.
\<close>

theorem hourly_bonus_witness:
  "employee_type ((Employee_init ''Alice'' MANAGER HOURLY)
       \<lparr>hourly_rate := Some 20, hours_worked := Some 170\<rparr>) = HOURLY
 \<and> role ((Employee_init ''Alice'' MANAGER HOURLY)
       \<lparr>hourly_rate := Some 20, hours_worked := Some 170\<rparr>) \<noteq> INTERN
 \<and> calculate_payment HourlyPayment ((Employee_init ''Alice'' MANAGER HOURLY)
       \<lparr>hourly_rate := Some 20, hours_worked := Some 170\<rparr>) = Inr (Some 3400)
 \<and> PayEmployeeCommand_execute 7 ((Employee_init ''Alice'' MANAGER HOURLY)
       \<lparr>hourly_rate := Some 20, hours_worked := Some 170\<rparr>) HourlyPayment DEFAULT_CONFIG []
     = (Inr 3500,
        [\<lparr>timestamp = 7, operation = ''PAYMENT'', employee_name = Some ''Alice'',
          op_amount = Some 3500, details = Some (BaseBonusDetails 3400 100)\<rparr>])"
  using hourly_bonus
          [of "(Employee_init ''Alice'' MANAGER HOURLY)
                 \<lparr>hourly_rate := Some 20, hours_worked := Some 170\<rparr>"
              170 HourlyPayment 3400 100 DEFAULT_CONFIG 7 "[]"]
  by (simp add: Employee_init_def DEFAULT_CONFIG_def config_get_def)

text \<open>
  C7. For a Freelance employee the base payment is the sum of the amounts of the
  projects whose \<open>delivered\<close> flag is true, and adding a project that is not delivered
  leaves the base payment as it was.
\<close>

theorem freelance_base:
  "create_payment_strategy FREELANCER = Inr FreelancePayment
 \<and> calculate_payment FreelancePayment e
     = Inr (Some (sum_list (map amount (filter delivered (projects e)))))
 \<and> (\<not> delivered p \<longrightarrow>
      calculate_payment FreelancePayment (add_project e p)
        = calculate_payment FreelancePayment e)"
  by (simp add: create_payment_strategy_def py_sum_sum_list get_delivered_projects_def
        add_project_def)

theorem freelance_base_witness:
  "\<not> delivered \<lparr>project_name = ''draft'', amount = 70, delivered = False\<rparr>
 \<and> calculate_payment FreelancePayment
      ((Employee_init ''Fay'' MANAGER FREELANCER)
         \<lparr>projects := [\<lparr>project_name = ''site'', amount = 300, delivered = True\<rparr>,
                       \<lparr>project_name = ''logo'', amount = 50, delivered = False\<rparr>,
                       \<lparr>project_name = ''app'', amount = 200, delivered = True\<rparr>]\<rparr>)
     = Inr (Some 500)
 \<and> calculate_payment FreelancePayment
      (add_project
        ((Employee_init ''Fay'' MANAGER FREELANCER)
           \<lparr>projects := [\<lparr>project_name = ''site'', amount = 300, delivered = True\<rparr>,
                         \<lparr>project_name = ''logo'', amount = 50, delivered = False\<rparr>,
                         \<lparr>project_name = ''app'', amount = 200, delivered = True\<rparr>]\<rparr>)
        \<lparr>project_name = ''draft'', amount = 70, delivered = False\<rparr>)
     = Inr (Some 500)"
  using freelance_base
          [of "(Employee_init ''Fay'' MANAGER FREELANCER)
                 \<lparr>projects := [\<lparr>project_name = ''site'', amount = 300, delivered = True\<rparr>,
                               \<lparr>project_name = ''logo'', amount = 50, delivered = False\<rparr>,
                               \<lparr>project_name = ''app'', amount = 200, delivered = True\<rparr>]\<rparr>"
              "\<lparr>project_name = ''draft'', amount = 70, delivered = False\<rparr>"]
  by (simp add: Employee_init_def)

text \<open>
  C10. A project added through \<open>Company.add_project_to_freelancer\<close> is created with
  \<open>delivered\<close> true and appended to the employee's projects, so for a Freelance
  employee the base payment after the call is the base payment before it plus the
  amount of the project. For an employee of any other type the call raises
  \<open>ValueError\<close> and the employee is as before.
\<close>

theorem add_project_to_freelancer_base:
  "(employee_type e = FREELANCER \<and> calculate_payment FreelancePayment e = Inr (Some b) \<longrightarrow>
      add_project_to_freelancer e pname amt
        = (Inr (), e\<lparr>projects := projects e
                        @ [\<lparr>project_name = pname, amount = amt, delivered = True\<rparr>]\<rparr>)
    \<and> calculate_payment FreelancePayment (snd (add_project_to_freelancer e pname amt))
        = Inr (Some (b + amt)))
 \<and> (employee_type e \<noteq> FREELANCER \<longrightarrow>
      add_project_to_freelancer e pname amt = (Inl (ValueError OnlyFreelancers), e))"
  by (auto simp add: add_project_to_freelancer_def add_project_def get_delivered_projects_def
        py_sum_snoc)

theorem add_project_to_freelancer_base_witness:
  "employee_type (Employee_init ''Fay'' MANAGER FREELANCER) = FREELANCER
 \<and> calculate_payment FreelancePayment (Employee_init ''Fay'' MANAGER FREELANCER)
     = Inr (Some 0)
 \<and> calculate_payment FreelancePayment
      (snd (add_project_to_freelancer (Employee_init ''Fay'' MANAGER FREELANCER) ''site'' 300))
     = Inr (Some 300)
 \<and> employee_type (Employee_init ''Sam'' MANAGER SALARIED) \<noteq> FREELANCER
 \<and> add_project_to_freelancer (Employee_init ''Sam'' MANAGER SALARIED) ''site'' 300
     = (Inl (ValueError OnlyFreelancers), Employee_init ''Sam'' MANAGER SALARIED)"
  using add_project_to_freelancer_base
          [of "Employee_init ''Fay'' MANAGER FREELANCER" 0 "''site''" 300]
        add_project_to_freelancer_base
          [of "Employee_init ''Sam'' MANAGER SALARIED" 0 "''site''" 300]
  by (simp add: Employee_init_def get_delivered_projects_def py_sum_def)

section \<open>Balances reached through the vacation service\<close>

text \<open>
  The vacation service selects the policy from the employee's role, and then a balance
  that is not negative stays so: an employee created with the default balance never
  reaches a negative one.
\<close>

lemma grant_vacation_balance_nonneg:
  assumes "0 \<le> vacation_days e"
  shows "0 \<le> vacation_days (fst (snd (VacationService_grant_vacation now e days payout ops)))"
  using assms
  by (cases "role e")
     (simp_all add: VacationService_grant_vacation_def GrantVacationCommand_execute_def
        create_vacation_policy_def)

section \<open>Audit log queries\<close>

lemma record_all_append: "record_all cs ops = ops @ map entry_of cs"
  by (induction cs ops rule: record_all.induct) (simp_all add: OperationLog_record_def)

text \<open>
  A query without a name returns every entry in the order of the calls, and a query
  with a name that is not empty returns the entries of that name, in the same order.
\<close>

lemma get_operations_all:
  "OperationLog_get_operations None (record_all cs []) = map entry_of cs"
  by (simp add: OperationLog_get_operations_def truthy_def record_all_append)

lemma get_operations_named:
  assumes "n \<noteq> []"
  shows "OperationLog_get_operations (Some n) (record_all cs [])
           = map entry_of (filter (\<lambda>c. employee_name (entry_of c) = Some n) cs)"
  using assms
  by (simp add: OperationLog_get_operations_def truthy_def record_all_append filter_map o_def)

text \<open>
  C8. A query filtered by an employee name is to return exactly the entries of that
  name. The test \<^verbatim>\<open>if employee_name:\<close> takes the empty name for no filter at all:
  after a payment to Alice and one to an employee whose name is empty, the history of
  the latter holds Alice's entry too, while the entries whose name equals the filter
  are the second one alone.
\<close>

theorem empty_name_query_unfiltered:
  "get_employee_history (Employee_init [] MANAGER SALARIED)
     (record_all [(1, ''PAYMENT'', Some ''Alice'', Some 3500, None),
                  (2, ''PAYMENT'', Some [], Some 50, None)] [])
   = [\<lparr>timestamp = 1, operation = ''PAYMENT'', employee_name = Some ''Alice'',
        op_amount = Some 3500, details = None\<rparr>,
      \<lparr>timestamp = 2, operation = ''PAYMENT'', employee_name = Some [],
        op_amount = Some 50, details = None\<rparr>]
 \<and> filter (\<lambda>op. employee_name op = Some [])
     (record_all [(1, ''PAYMENT'', Some ''Alice'', Some 3500, None),
                  (2, ''PAYMENT'', Some [], Some 50, None)] [])
   = [\<lparr>timestamp = 2, operation = ''PAYMENT'', employee_name = Some [],
        op_amount = Some 50, details = None\<rparr>]"
  by (simp add: get_employee_history_def OperationLog_get_operations_def truthy_def
        OperationLog_record_def Employee_init_def)

end
